theory Spec2Isabelle
  imports Complex_Main
begin

section \<open>The tab tracker of src/addon/TabTracker.js\<close>

text \<open>
  The tracker object owns two pieces of mutable state: \<open>_tabData\<close>, the one live
  session payload, and \<open>_openTabs\<close>, the table of tabs it has seen opening. Every handler
  is modelled as a function from the tracker state to either a JavaScript exception or
  the updated state. What the handlers read from outside the object (the active tab, the
  redux store, the clock, the UUID generator, the add-on version, the locale) is collected
  in an environment record; what they write outside (observer notifications) is logged in
  the state, in order. An exception is a result of its own: the fields a handler had
  written before it threw are not kept. Registering and removing listeners (\<open>init\<close>,
  \<open>uninit\<close>, \<open>_addListeners\<close>, \<open>_removeListeners\<close>, \<open>_onPrefChange\<close>) has no part in the
  session state and is not modelled; timestamps are real numbers.
\<close>

subsection \<open>JavaScript values\<close>

text \<open>
  A field of a JavaScript object that is absent, or holds \<open>undefined\<close>, is \<open>None\<close>
  (\<open>JSON.stringify\<close> leaves both out). Truthiness is written out: the empty string and the
  number zero are falsy as \<open>undefined\<close> is.
\<close>

datatype error = TypeError

fun truthy_str :: "string option \<Rightarrow> bool" where
  "truthy_str None = False"
| "truthy_str (Some s) = (s \<noteq> [])"

fun truthy_num :: "real option \<Rightarrow> bool" where
  "truthy_num None = False"
| "truthy_num (Some x) = (x \<noteq> 0)"

text \<open>\<open>a || b\<close> on a string field \<open>a\<close> and a string \<open>b\<close>.\<close>

fun or_str :: "string option \<Rightarrow> string \<Rightarrow> string" where
  "or_str None d = d"
| "or_str (Some s) d = (if s = [] then d else s)"

text \<open>\<open>String.prototype.toLowerCase\<close>, on the ASCII letters.\<close>

definition lower_char :: "char \<Rightarrow> char" where
  "lower_char c =
     (let n = (of_char c :: nat) in if 65 \<le> n \<and> n \<le> 90 then char_of (n + 32) else c)"

definition toLowerCase :: "string \<Rightarrow> string" where
  "toLowerCase s = map lower_char s"

text \<open>\<open>url.split("#/")\<close>: the pieces of \<open>url\<close> between the occurrences of \<open>#/\<close>.\<close>

fun split_hash_slash :: "string \<Rightarrow> string \<Rightarrow> string list" where
  "split_hash_slash acc [] = [rev acc]"
| "split_hash_slash acc [c] = [rev (c # acc)]"
| "split_hash_slash acc (c # d # cs) =
     (if c = CHR ''#'' \<and> d = CHR ''/'' then rev acc # split_hash_slash [] cs
      else split_hash_slash (c # acc) (d # cs))"

text \<open>\<open>url.split("#/")[1] || defaultPage\<close>\<close>

definition page_of :: "string \<Rightarrow> string \<Rightarrow> string" where
  "page_of u dflt =
     (case split_hash_slash [] u of
        a # p # rest \<Rightarrow> (if p = [] then dflt else p)
      | _ \<Rightarrow> dflt)"

subsection \<open>Data\<close>

text \<open>A tab of \<open>sdk/tabs\<close>, as far as the tracker reads it: \<open>tab.id\<close> and \<open>tab.url\<close>.\<close>

record tab =
  t_id :: string
  t_url :: string

text \<open>
  A row of \<open>_openTabs\<close>: \<open>{tab, url, active}\<close>. The reference to the tab object, which
  only \<open>_removeListeners\<close> reads, is left out.
\<close>

record open_tab =
  o_url :: string
  o_active :: bool

text \<open>
  The fields every emitted JSON payload may carry: \<open>action\<close> and \<open>tab_id\<close>, and the
  ones \<open>_setCommonProperties\<close> writes.
\<close>

record ping =
  action :: "string option"
  tab_id :: "string option"
  client_id :: "string option"
  addon_version :: "string option"
  locale' :: "string option"
  page :: "string option"
  session_id :: "string option"
  experiment_id :: "string option"

text \<open>\<open>_tabData\<close>: the live session state, which is also the session-complete payload.\<close>

record tab_data = ping +
  total_history_size :: "int option"
  total_bookmarks :: "int option"
  unload_reason :: "string option"
  highlights_size :: "int option"
  url :: "string option"
  load_reason :: "string option"
  session_duration :: "real option"
  start_time :: "real option"
  active :: "bool option"
  load_latency :: "real option"

text \<open>
  The payload of a user, undesired or performance event: the caller's object, of which
  the tracker reads \<open>event\<close> and \<open>value\<close>; its other fields pass through unread.
\<close>

record payload = ping +
  event :: "string option"
  value' :: "real option"
  extra :: "(string \<times> string) list"

datatype json = SessionJSON tab_data | EventJSON payload

datatype notification = Notification (topic: string) (data: json)

text \<open>What \<open>this._store.getState()\<close> returns, as far as the tracker reads it.\<close>

record store_state =
  Highlights_error :: bool
  Highlights_init :: bool
  Highlights_rows_length :: nat
  PlacesStats_historySize :: "int option"
  PlacesStats_bookmarksSize :: "int option"

text \<open>
  The environment of a handler call. \<open>store\<close> is \<open>this._store\<close> with the state it
  returns (\<open>None\<close> when \<open>init\<close> received no store). \<open>now\<close> and \<open>uuid\<close> are the
  successive results of \<open>absPerf.now()\<close> and \<open>String(uuid())\<close>: the state counts the
  calls made so far. \<open>defaultPage\<close> is \<open>eventConstants.defaultPage\<close>, a constant of a
  module outside the modelled file; \<open>version\<close> and \<open>self_id\<close> are \<open>self.version\<close> and
  \<open>self.id\<close>.
\<close>

record env =
  activeTab :: "tab option"
  store :: "store_state option"
  version :: string
  getLocale :: string
  defaultPage :: string
  self_id :: string
  now :: "nat \<Rightarrow> real"
  uuid :: "nat \<Rightarrow> string"

record tracker =
  tabData :: tab_data
  openTabs :: "string \<rightharpoonup> open_tab"
  clientID :: "string option"
  experimentID :: "string option"
  trackableURLs :: "string list"
  notified :: "notification list"
  nowReads :: nat
  uuidReads :: nat

definition TELEMETRY_PREF :: string where "TELEMETRY_PREF = ''telemetry''"
definition COMPLETE_NOTIF :: string where "COMPLETE_NOTIF = ''tab-session-complete''"
definition ACTION_NOTIF :: string where "ACTION_NOTIF = ''user-action-event''"
definition PERFORMANCE_NOTIF :: string where "PERFORMANCE_NOTIF = ''performance-event''"
definition UNDESIRED_NOTIF :: string where "UNDESIRED_NOTIF = ''undesired-event''"

text \<open>The empty object \<open>{}\<close>.\<close>

definition empty_tab_data :: tab_data where
  "empty_tab_data =
     \<lparr> action = None, tab_id = None, client_id = None, addon_version = None,
       locale' = None, page = None, session_id = None, experiment_id = None,
       total_history_size = None, total_bookmarks = None, unload_reason = None,
       highlights_size = None, url = None, load_reason = None, session_duration = None,
       start_time = None, active = None, load_latency = None \<rparr>"

text \<open>The tracker after the constructor and \<open>init(trackableURLs, experimentId, store)\<close>.\<close>

definition TabTracker :: "string option \<Rightarrow> string list \<Rightarrow> string option \<Rightarrow> tracker" where
  "TabTracker cid urls expId =
     \<lparr> tabData = empty_tab_data, openTabs = Map.empty, clientID = cid, experimentID = expId,
       trackableURLs = urls, notified = [], nowReads = 0, uuidReads = 0 \<rparr>"

subsection \<open>Reading the clock and the UUID generator, notifying observers\<close>

definition absPerf_now :: "env \<Rightarrow> tracker \<Rightarrow> real \<times> tracker" where
  "absPerf_now e st = (now e (nowReads st), st\<lparr>nowReads := Suc (nowReads st)\<rparr>)"

definition next_uuid :: "env \<Rightarrow> tracker \<Rightarrow> string \<times> tracker" where
  "next_uuid e st = (uuid e (uuidReads st), st\<lparr>uuidReads := Suc (uuidReads st)\<rparr>)"

definition notifyObservers :: "string \<Rightarrow> json \<Rightarrow> tracker \<Rightarrow> tracker" where
  "notifyObservers tp d st = st\<lparr>notified := notified st @ [Notification tp d]\<rparr>"

subsection \<open>The methods of the tracker\<close>

definition clearTabData :: "tracker \<Rightarrow> tracker" where
  "clearTabData st =
     st\<lparr>tabData := empty_tab_data
          \<lparr>total_history_size := total_history_size (tabData st),
           total_bookmarks := total_bookmarks (tabData st)\<rparr>\<rparr>"

definition setCommonProperties ::
  "env \<Rightarrow> tracker \<Rightarrow> 'a ping_scheme \<Rightarrow> string \<Rightarrow> 'a ping_scheme" where
  "setCommonProperties e st p u =
     (let p1 = p\<lparr>client_id := clientID st\<rparr>;
          p2 = p1\<lparr>addon_version := Some (version e)\<rparr>;
          p3 = p2\<lparr>locale' := Some (getLocale e)\<rparr>;
          p4 = p3\<lparr>page := Some (page_of u (defaultPage e))\<rparr>;
          p5 = p4\<lparr>session_id := session_id (tabData st)\<rparr>
      in if truthy_str (experimentID st) then p5\<lparr>experiment_id := experimentID st\<rparr>
         else p5)"

definition isActivityStreamsURL :: "tracker \<Rightarrow> string \<Rightarrow> bool" where
  "isActivityStreamsURL st u = (u \<in> set (trackableURLs st))"

definition initTabSession :: "env \<Rightarrow> tab \<Rightarrow> string \<Rightarrow> tracker \<Rightarrow> tracker" where
  "initTabSession e t loadReason st =
     (let (sid, st1) =
            (case session_id (tabData st) of
               None \<Rightarrow> next_uuid e st
             | Some s \<Rightarrow> (if s \<noteq> [] then (s, st) else next_uuid e st))
      in st1\<lparr>tabData := (tabData st1)
               \<lparr>session_id := Some sid, url := Some (t_url t), tab_id := Some (t_id t),
                load_reason := Some loadReason\<rparr>\<rparr>)"

definition highlights_count :: "env \<Rightarrow> int" where
  "highlights_count e =
     (case store e of
        Some s \<Rightarrow>
          (if Highlights_error s \<or> \<not> Highlights_init s then - 1
           else int (Highlights_rows_length s))
      | None \<Rightarrow> - 1)"

definition navigateAwayFromPage ::
  "env \<Rightarrow> tab \<Rightarrow> string \<Rightarrow> tracker \<Rightarrow> error + tracker" where
  "navigateAwayFromPage e t reason st =
     (case openTabs st (t_id t) of
        None \<Rightarrow> Inl TypeError
      | Some row \<Rightarrow>
          (let td1 = setCommonProperties e st (tabData st) (o_url row);
               td2 = td1\<lparr>action := Some ''activity_stream_session''\<rparr>;
               td3 = td2\<lparr>unload_reason := Some (or_str (unload_reason td2) reason)\<rparr>;
               td4 = td3\<lparr>highlights_size := Some (highlights_count e)\<rparr>;
               st4 = st\<lparr>tabData := td4\<rparr>
           in if \<not> truthy_str (tab_id td4) then
                (let st5 = initTabSession e t (or_str (load_reason td4) ''none'') st4;
                     st6 = st5\<lparr>tabData := (tabData st5)\<lparr>session_duration := Some 0\<rparr>\<rparr>;
                     st7 = st6\<lparr>tabData := (tabData st6)\<lparr>start_time := None\<rparr>\<rparr>;
                     st8 = notifyObservers COMPLETE_NOTIF (SessionJSON (tabData st7)) st7
                 in Inr (clearTabData st8))
              else
                (let st5 =
                       (case start_time td4 of
                          None \<Rightarrow> st4
                        | Some t0 \<Rightarrow>
                            (if t0 \<noteq> 0 then
                               (let (t1, s) = absPerf_now e st4
                                in s\<lparr>tabData := (tabData s)
                                      \<lparr>session_duration := Some (t1 - t0),
                                       start_time := None\<rparr>\<rparr>)
                             else st4));
                     st6 = st5\<lparr>tabData := (tabData st5)\<lparr>active := None\<rparr>\<rparr>;
                     st7 = notifyObservers COMPLETE_NOTIF (SessionJSON (tabData st6)) st6
                 in Inr (clearTabData st7))))"

definition logActivate :: "env \<Rightarrow> tab \<Rightarrow> tracker \<Rightarrow> error + tracker" where
  "logActivate e t st =
     (if isActivityStreamsURL st (t_url t) then
        (let st1 = initTabSession e t (or_str (load_reason (tabData st)) ''focus'') st;
             (t1, st2) = absPerf_now e st1;
             st3 = st2\<lparr>tabData := (tabData st2)\<lparr>start_time := Some t1\<rparr>\<rparr>
         in case openTabs st3 (t_id t) of
              None \<Rightarrow> Inl TypeError
            | Some row \<Rightarrow>
                Inr (st3\<lparr>openTabs := (openTabs st3)
                           (t_id t \<mapsto> row\<lparr>o_url := t_url t, o_active := True\<rparr>)\<rparr>))
      else Inr st)"

text \<open>
  The second half of \<open>logReady\<close>: a URL other than a tracked one was loaded, or the tab is
  not the active one.
\<close>

definition logReady_other :: "env \<Rightarrow> tab \<Rightarrow> tracker \<Rightarrow> error + tracker" where
  "logReady_other e t st =
     (if tab_id (tabData st) = Some (t_id t) \<and>
         (case openTabs st (t_id t) of
            None \<Rightarrow> False
          | Some row \<Rightarrow> isActivityStreamsURL st (o_url row))
      then navigateAwayFromPage e t ''navigation'' st
      else Inr st)"

definition logReady :: "env \<Rightarrow> tab \<Rightarrow> tracker \<Rightarrow> error + tracker" where
  "logReady e t st =
     (if isActivityStreamsURL st (t_url t) then
        (case activeTab e of
           None \<Rightarrow> Inl TypeError
         | Some a \<Rightarrow>
             (if t_id a = t_id t then
                (if \<not> truthy_str (url (tabData st)) then
                   logActivate e t (st\<lparr>tabData := (tabData st)\<lparr>load_reason := Some ''newtab''\<rparr>\<rparr>)
                 else if \<not> truthy_num (session_duration (tabData st)) then
                   (case navigateAwayFromPage e t ''refresh'' st of
                      Inl x \<Rightarrow> Inl x
                    | Inr st1 \<Rightarrow>
                        logActivate e t
                          (st1\<lparr>tabData := (tabData st1)\<lparr>load_reason := Some ''refresh''\<rparr>\<rparr>))
                 else logActivate e t st)
              else logReady_other e t st))
      else logReady_other e t st)"

definition logPageShow :: "env \<Rightarrow> tab \<Rightarrow> tracker \<Rightarrow> error + tracker" where
  "logPageShow e t st =
     (if isActivityStreamsURL st (t_url t) \<and> \<not> truthy_str (load_reason (tabData st))
      then logReady e t st
      else Inr st)"

definition logDeactivate :: "env \<Rightarrow> tab \<Rightarrow> tracker \<Rightarrow> error + tracker" where
  "logDeactivate e t st =
     (case activeTab e of
        None \<Rightarrow> Inr st
      | Some a \<Rightarrow>
          (if isActivityStreamsURL st (t_url t) then
             (case navigateAwayFromPage e t ''unfocus'' st of
                Inl x \<Rightarrow> Inl x
              | Inr st1 \<Rightarrow>
                  (case openTabs st1 (t_id t) of
                     None \<Rightarrow> Inl TypeError
                   | Some row \<Rightarrow>
                       Inr (st1\<lparr>openTabs := (openTabs st1)
                                  (t_id t \<mapsto> row\<lparr>o_active := False\<rparr>)\<rparr>)))
           else Inr st))"

definition logClose :: "env \<Rightarrow> tab \<Rightarrow> tracker \<Rightarrow> error + tracker" where
  "logClose e t st =
     (if isActivityStreamsURL st (t_url t) then
        (case openTabs st (t_id t) of
           None \<Rightarrow> Inl TypeError
         | Some row \<Rightarrow>
             (if \<not> o_active row then Inr st
              else
                (case navigateAwayFromPage e t ''close'' st of
                   Inl x \<Rightarrow> Inl x
                 | Inr st1 \<Rightarrow> Inr (st1\<lparr>openTabs := (openTabs st1)(t_id t := None)\<rparr>))))
      else Inr (st\<lparr>openTabs := (openTabs st)(t_id t := None)\<rparr>))"

definition onOpen :: "env \<Rightarrow> tab \<Rightarrow> tracker \<Rightarrow> tracker" where
  "onOpen e t st =
     (let st1 = st\<lparr>openTabs := (openTabs st)
                     (t_id t \<mapsto> \<lparr>o_url = t_url t, o_active = True\<rparr>)\<rparr>;
          st2 = st1\<lparr>tabData := (tabData st1)\<lparr>tab_id := Some (t_id t)\<rparr>\<rparr>;
          st3 =
            (case store e of
               None \<Rightarrow> st2
             | Some s \<Rightarrow>
                 st2\<lparr>tabData := (tabData st2)
                      \<lparr>total_history_size := PlacesStats_historySize s,
                       total_bookmarks := PlacesStats_bookmarksSize s\<rparr>\<rparr>);
          (sid, st4) = next_uuid e st3
      in st4\<lparr>tabData := (tabData st4)\<lparr>session_id := Some sid\<rparr>\<rparr>)"

definition handleUserEvent :: "env \<Rightarrow> payload \<Rightarrow> tracker \<Rightarrow> error + tracker" where
  "handleUserEvent e p st =
     (let p1 = p\<lparr>action := Some ''activity_stream_event''\<rparr>
      in case activeTab e of
           None \<Rightarrow> Inl TypeError
         | Some a \<Rightarrow>
             (let p2 = p1\<lparr>tab_id := Some (t_id a)\<rparr>;
                  p3 = setCommonProperties e st p2 (t_url a);
                  st1 = notifyObservers ACTION_NOTIF (EventJSON p3) st
              in case event p3 of
                   None \<Rightarrow> Inr st1
                 | Some ev \<Rightarrow>
                     (if ev = ''SEARCH'' \<or> ev = ''CLICK'' then
                        Inr (st1\<lparr>tabData := (tabData st1)
                                  \<lparr>unload_reason := Some (toLowerCase ev)\<rparr>\<rparr>)
                      else Inr st1)))"

definition handleUndesiredEvent :: "env \<Rightarrow> payload \<Rightarrow> tracker \<Rightarrow> error + tracker" where
  "handleUndesiredEvent e p st =
     (let p1 = p\<lparr>action := Some ''activity_stream_masga_event''\<rparr>
      in case activeTab e of
           None \<Rightarrow> Inl TypeError
         | Some a \<Rightarrow>
             (let p2 = p1\<lparr>tab_id := Some (t_id a)\<rparr>;
                  p3 = setCommonProperties e st p2 (t_url a);
                  p4 = (case value' p3 of None \<Rightarrow> p3\<lparr>value' := Some 0\<rparr> | Some v \<Rightarrow> p3)
              in Inr (notifyObservers UNDESIRED_NOTIF (EventJSON p4) st)))"

definition handlePerformanceEvent ::
  "env \<Rightarrow> payload \<Rightarrow> string \<Rightarrow> real \<Rightarrow> tracker \<Rightarrow> error + tracker" where
  "handlePerformanceEvent e eventData eventName v st =
     (case activeTab e of
        None \<Rightarrow> Inr st
      | Some a \<Rightarrow>
          (let p1 = eventData\<lparr>action := Some ''activity_stream_performance''\<rparr>;
               p2 = p1\<lparr>tab_id := Some (t_id a)\<rparr>;
               p3 = p2\<lparr>event := Some eventName\<rparr>;
               p4 = p3\<lparr>value' := Some v\<rparr>;
               p5 = setCommonProperties e st p4 (t_url a)
           in Inr (notifyObservers PERFORMANCE_NOTIF (EventJSON p5) st)))"

definition handleRouteChange :: "env \<Rightarrow> tab \<Rightarrow> bool \<Rightarrow> tracker \<Rightarrow> error + tracker" where
  "handleRouteChange e t isFirstLoad st =
     (if \<not> isFirstLoad then
        (case navigateAwayFromPage e t ''route_change'' st of
           Inl x \<Rightarrow> Inl x
         | Inr st1 \<Rightarrow> logReady e t st1)
      else Inr st)"

text \<open>
  \<open>observe(subject, topic, data)\<close>. For the topic \<open>performance-log-complete\<close> the data is
  given parsed: the \<open>tabId\<close> and the \<open>start\<close> of each of its \<open>events\<close>; reading the last
  of no events throws. For the slow add-on topic the data is the id of the add-on.
\<close>

datatype observed = PerfLogComplete "string option" "real list" | SlowAddonDetected string

definition observe :: "env \<Rightarrow> observed \<Rightarrow> tracker \<Rightarrow> error + tracker" where
  "observe e ob st =
     (case ob of
        PerfLogComplete tabId starts \<Rightarrow>
          (if tabId = tab_id (tabData st) then
             (case starts of
                [] \<Rightarrow> Inl TypeError
              | x # xs \<Rightarrow> Inr (st\<lparr>tabData := (tabData st)\<lparr>load_latency := Some (last starts)\<rparr>\<rparr>))
           else Inr st)
      | SlowAddonDetected d \<Rightarrow>
          (if d = self_id e then
             handleUndesiredEvent e
               \<lparr> action = None, tab_id = None, client_id = None, addon_version = None,
                 locale' = None, page = None, session_id = None, experiment_id = None,
                 event = Some ''SLOW_ADDON_DETECTED'', value' = None,
                 extra = [(''source'', ''ADDON'')] \<rparr> st
           else Inr st))"

subsection \<open>Observing a run\<close>

text \<open>The session-complete records among the notifications, in the order sent.\<close>

fun completed_of :: "notification list \<Rightarrow> tab_data list" where
  "completed_of [] = []"
| "completed_of (Notification tp (SessionJSON td) # ns) =
     (if tp = COMPLETE_NOTIF then td # completed_of ns else completed_of ns)"
| "completed_of (Notification tp (EventJSON p) # ns) = completed_of ns"

definition completed :: "tracker \<Rightarrow> tab_data list" where
  "completed st = completed_of (notified st)"

text \<open>
  \<open>emits_exactly st st' r\<close>: between \<open>st\<close> and \<open>st'\<close> the tracker sent one notification
  and no other, the session-complete record \<open>r\<close>.
\<close>

definition emits_exactly :: "tracker \<Rightarrow> tracker \<Rightarrow> tab_data \<Rightarrow> bool" where
  "emits_exactly st st' r =
     (notified st' = notified st @ [Notification COMPLETE_NOTIF (SessionJSON r)])"

text \<open>One handler after another; an exception ends the sequence.\<close>

definition and_then ::
  "error + tracker \<Rightarrow> (tracker \<Rightarrow> error + tracker) \<Rightarrow> error + tracker" where
  "and_then r f = (case r of Inl x \<Rightarrow> Inl x | Inr s \<Rightarrow> f s)"

text \<open>
  The calls the host makes on the tracker: the tab events \<open>onOpen\<close> subscribes to, the
  public methods and the observer callback. A run is a list of calls, each with the
  environment at the time of the call; the clock and the UUID generator are those of the
  whole run. A run is followed up to its first exception.
\<close>

datatype call =
    OnOpen tab
  | LogReady tab
  | LogPageShow tab
  | LogActivate tab
  | LogDeactivate tab
  | LogClose tab
  | HandleUserEvent payload
  | HandleUndesiredEvent payload
  | HandlePerformanceEvent payload string real
  | HandleRouteChange tab bool
  | Observe observed

fun dispatch :: "env \<Rightarrow> call \<Rightarrow> tracker \<Rightarrow> error + tracker" where
  "dispatch e (OnOpen t) st = Inr (onOpen e t st)"
| "dispatch e (LogReady t) st = logReady e t st"
| "dispatch e (LogPageShow t) st = logPageShow e t st"
| "dispatch e (LogActivate t) st = logActivate e t st"
| "dispatch e (LogDeactivate t) st = logDeactivate e t st"
| "dispatch e (LogClose t) st = logClose e t st"
| "dispatch e (HandleUserEvent p) st = handleUserEvent e p st"
| "dispatch e (HandleUndesiredEvent p) st = handleUndesiredEvent e p st"
| "dispatch e (HandlePerformanceEvent d n v) st = handlePerformanceEvent e d n v st"
| "dispatch e (HandleRouteChange t f) st = handleRouteChange e t f st"
| "dispatch e (Observe ob) st = observe e ob st"

fun run ::
  "(nat \<Rightarrow> real) \<Rightarrow> (nat \<Rightarrow> string) \<Rightarrow> (env \<times> call) list \<Rightarrow> tracker \<Rightarrow> error + tracker" where
  "run clk gen [] st = Inr st"
| "run clk gen ((e, c) # cs) st =
     and_then (dispatch (e\<lparr>now := clk, uuid := gen\<rparr>) c st) (run clk gen cs)"

text \<open>
  What holds of the session state between two calls: no \<open>session_duration\<close> and no
  \<open>active\<close> field is left in it, a \<open>load_reason\<close> is never the empty string, and a
  \<open>start_time\<close> is one of the readings of the clock made so far.
\<close>

definition session_inv :: "(nat \<Rightarrow> real) \<Rightarrow> tracker \<Rightarrow> bool" where
  "session_inv clk st =
     (session_duration (tabData st) = None \<and> active (tabData st) = None \<and>
      load_reason (tabData st) \<noteq> Some [] \<and>
      (case start_time (tabData st) of
         None \<Rightarrow> True
       | Some t0 \<Rightarrow> (\<exists>k<nowReads st. t0 = clk k)))"

text \<open>No record sent so far has a negative \<open>session_duration\<close>.\<close>

definition durations_ok :: "tracker \<Rightarrow> bool" where
  "durations_ok st =
     list_all (\<lambda>r. case session_duration r of None \<Rightarrow> True | Some d \<Rightarrow> 0 \<le> d)
       (completed st)"

definition tracker_inv :: "(nat \<Rightarrow> real) \<Rightarrow> tracker \<Rightarrow> bool" where
  "tracker_inv clk st = (session_inv clk st \<and> durations_ok st)"

subsection \<open>A concrete browser session\<close>

text \<open>
  One tab showing the tracked page \<open>about:newtab\<close>, a second tab showing another page, a
  store with three highlights, a clock that advances by ten per reading and a UUID
  generator whose results differ.
\<close>

definition ex_tab :: tab where
  "ex_tab = \<lparr>t_id = ''-3-1'', t_url = ''about:newtab''\<rparr>"

definition ex_other :: tab where
  "ex_other = \<lparr>t_id = ''-3-2'', t_url = ''https://example.org/''\<rparr>"

definition ex_env :: env where
  "ex_env =
     \<lparr> activeTab = Some ex_tab,
       store = Some \<lparr>Highlights_error = False, Highlights_init = True,
         Highlights_rows_length = 3, PlacesStats_historySize = Some 40,
         PlacesStats_bookmarksSize = Some 5\<rparr>,
       version = ''1.0.0'', getLocale = ''en-US'', defaultPage = ''NEW_TAB'',
       self_id = ''@activity-streams'',
       now = (\<lambda>n. 100 + 10 * real n),
       uuid = (\<lambda>n. if n = 0 then ''{uuid-0}'' else if n = 1 then ''{uuid-1}''
                   else ''{uuid-2}'') \<rparr>"

definition ex_init :: tracker where
  "ex_init = TabTracker (Some ''client'') [''about:newtab''] None"

text \<open>The state after the tab opened and its page became ready.\<close>

definition ex_loaded :: tracker where
  "ex_loaded =
     \<lparr> tabData = empty_tab_data
         \<lparr>tab_id := Some ''-3-1'', session_id := Some ''{uuid-0}'',
          total_history_size := Some 40, total_bookmarks := Some 5,
          url := Some ''about:newtab'', load_reason := Some ''newtab'',
          start_time := Some 100\<rparr>,
       openTabs = [''-3-1'' \<mapsto> \<lparr>o_url = ''about:newtab'', o_active = True\<rparr>],
       clientID = Some ''client'', experimentID = None,
       trackableURLs = [''about:newtab''], notified = [], nowReads = 1, uuidReads = 1 \<rparr>"

text \<open>A click on a top site, and the session state after the tracker recorded it.\<close>

definition ex_click :: payload where
  "ex_click =
     \<lparr> action = None, tab_id = None, client_id = None, addon_version = None,
       locale' = None, page = None, session_id = None, experiment_id = None,
       event = Some ''CLICK'', value' = None, extra = [(''source'', ''TOP_SITES'')] \<rparr>"

definition ex_clicked :: tracker where
  "ex_clicked = ex_loaded\<lparr>tabData := (tabData ex_loaded)\<lparr>unload_reason := Some ''click''\<rparr>\<rparr>"

text \<open>
  The session state and the tab table after the tab of \<open>ex_loaded\<close> lost the focus to
  the other tab: the session was flushed, the row is inactive.
\<close>

definition ex_idle :: tracker where
  "ex_idle =
     \<lparr> tabData = empty_tab_data\<lparr>total_history_size := Some 40, total_bookmarks := Some 5\<rparr>,
       openTabs = [''-3-1'' \<mapsto> \<lparr>o_url = ''about:newtab'', o_active = False\<rparr>],
       clientID = Some ''client'', experimentID = None,
       trackableURLs = [''about:newtab''], notified = [], nowReads = 2, uuidReads = 1 \<rparr>"

section \<open>Properties\<close>

lemmas tracker_defs = setCommonProperties_def initTabSession_def clearTabData_def
  notifyObservers_def absPerf_now_def next_uuid_def empty_tab_data_def

lemmas ex_defs = ex_tab_def ex_env_def ex_init_def ex_loaded_def TabTracker_def

lemma toLowerCase_CLICK: "toLowerCase ''CLICK'' = ''click''"
  by code_simp

lemma toLowerCase_SEARCH: "toLowerCase ''SEARCH'' = ''search''"
  by code_simp

lemma completed_of_append: "completed_of (xs @ ys) = completed_of xs @ completed_of ys"
  by (induction xs rule: completed_of.induct) auto

lemma completed_emits: "emits_exactly st st' r \<Longrightarrow> completed st' = completed st @ [r]"
  by (simp add: completed_def completed_of_append emits_exactly_def)

subsection \<open>The example states are states of a run\<close>

lemma ex_loaded_reachable:
  "logReady ex_env ex_tab (onOpen ex_env ex_tab ex_init) = Inr ex_loaded"
  by (simp add: logReady_def logActivate_def onOpen_def isActivityStreamsURL_def ex_defs
      tracker_defs Let_def)

lemma ex_clicked_reachable:
  "map_sum id tabData (handleUserEvent ex_env ex_click ex_loaded) = Inr (tabData ex_clicked)"
  by (simp add: handleUserEvent_def ex_click_def ex_clicked_def ex_defs tracker_defs Let_def
      toLowerCase_CLICK)

lemma ex_idle_reachable:
  "map_sum id (\<lambda>s. (tabData s, openTabs s, nowReads s, uuidReads s))
     (logDeactivate (ex_env\<lparr>activeTab := Some ex_other\<rparr>) ex_tab ex_loaded) =
   Inr (tabData ex_idle, openTabs ex_idle, nowReads ex_idle, uuidReads ex_idle)"
  by (simp add: logDeactivate_def navigateAwayFromPage_def isActivityStreamsURL_def
      highlights_count_def ex_idle_def ex_other_def ex_defs tracker_defs Let_def)

text \<open>
  The tab opens, its page becomes ready at 100, the tab loses the focus at 110: one
  record, with \<open>load_reason = "newtab"\<close>, \<open>unload_reason = "unfocus"\<close> and a duration
  of 10.
\<close>

lemma ex_newtab_unfocus:
  "map_sum id (map (\<lambda>r. (load_reason r, unload_reason r, session_duration r)) \<circ> completed)
     (and_then (logReady ex_env ex_tab (onOpen ex_env ex_tab ex_init))
        (logDeactivate (ex_env\<lparr>activeTab := Some ex_other\<rparr>) ex_tab)) =
   Inr [(Some ''newtab'', Some ''unfocus'', Some 10)]"
  by (simp add: ex_loaded_reachable and_then_def)
     (simp add: logDeactivate_def navigateAwayFromPage_def isActivityStreamsURL_def
        highlights_count_def completed_def COMPLETE_NOTIF_def ex_other_def ex_defs
        tracker_defs Let_def)

subsection \<open>What a flush and an activation do\<close>

lemma nav_no_tab_id:
  assumes "openTabs st (t_id t) = Some row" "\<not> truthy_str (tab_id (tabData st))"
  shows "\<exists>r st'. navigateAwayFromPage e t reason st = Inr st' \<and> emits_exactly st st' r \<and>
     session_duration r = Some 0 \<and> start_time r = None \<and>
     load_reason r = Some (or_str (load_reason (tabData st)) ''none'') \<and>
     unload_reason r = Some (or_str (unload_reason (tabData st)) reason) \<and>
     tabData st' = empty_tab_data\<lparr>total_history_size := total_history_size (tabData st),
           total_bookmarks := total_bookmarks (tabData st)\<rparr> \<and>
     openTabs st' = openTabs st \<and> trackableURLs st' = trackableURLs st"
  using assms
  by (auto simp: navigateAwayFromPage_def emits_exactly_def tracker_defs Let_def
      split: option.splits)

lemma nav_tab_id:
  assumes "openTabs st (t_id t) = Some row" "truthy_str (tab_id (tabData st))"
  shows "\<exists>r st'. navigateAwayFromPage e t reason st = Inr st' \<and> emits_exactly st st' r \<and>
     session_duration r =
       (case start_time (tabData st) of
          None \<Rightarrow> session_duration (tabData st)
        | Some t0 \<Rightarrow> if t0 \<noteq> 0 then Some (now e (nowReads st) - t0)
                     else session_duration (tabData st)) \<and>
     load_reason r = load_reason (tabData st) \<and>
     session_id r = session_id (tabData st) \<and>
     unload_reason r = Some (or_str (unload_reason (tabData st)) reason) \<and>
     tabData st' = empty_tab_data\<lparr>total_history_size := total_history_size (tabData st),
           total_bookmarks := total_bookmarks (tabData st)\<rparr> \<and>
     openTabs st' = openTabs st \<and> trackableURLs st' = trackableURLs st"
  using assms
  by (auto simp: navigateAwayFromPage_def emits_exactly_def tracker_defs Let_def
      split: option.splits)

lemma nav_any:
  assumes "openTabs st (t_id t) = Some row"
  shows "\<exists>r st'. navigateAwayFromPage e t reason st = Inr st' \<and> emits_exactly st st' r \<and>
     unload_reason r = Some (or_str (unload_reason (tabData st)) reason) \<and>
     tabData st' = empty_tab_data\<lparr>total_history_size := total_history_size (tabData st),
           total_bookmarks := total_bookmarks (tabData st)\<rparr> \<and>
     openTabs st' = openTabs st \<and> trackableURLs st' = trackableURLs st \<and>
     nowReads st \<le> nowReads st' \<and> uuidReads st \<le> uuidReads st'"
  using assms
  by (auto simp: navigateAwayFromPage_def emits_exactly_def tracker_defs Let_def
      split: option.splits)

lemma nav_session_id:
  assumes "navigateAwayFromPage e t reason st = Inr st'"
  shows "session_id (tabData st') = None \<and> start_time (tabData st') = None \<and>
     (\<exists>r. emits_exactly st st' r \<and>
        session_id r =
          (if truthy_str (session_id (tabData st)) then session_id (tabData st)
           else if truthy_str (tab_id (tabData st)) then session_id (tabData st)
           else Some (uuid e (uuidReads st))))"
  using assms
  by (cases "session_id (tabData st)")
     (auto simp: navigateAwayFromPage_def emits_exactly_def tracker_defs Let_def
      split: option.splits if_splits)

lemma nav_row:
  assumes "navigateAwayFromPage e t reason st = Inr st'"
  shows "\<exists>row. openTabs st (t_id t) = Some row"
  using assms by (auto simp: navigateAwayFromPage_def split: option.splits)

lemma logActivate_tracked:
  assumes "isActivityStreamsURL st (t_url t)" "openTabs st (t_id t) = Some row"
  shows "\<exists>st'. logActivate e t st = Inr st' \<and> notified st' = notified st \<and>
     load_reason (tabData st') = Some (or_str (load_reason (tabData st)) ''focus'') \<and>
     start_time (tabData st') = Some (now e (nowReads st)) \<and>
     nowReads st' = Suc (nowReads st) \<and>
     url (tabData st') = Some (t_url t) \<and> tab_id (tabData st') = Some (t_id t) \<and>
     unload_reason (tabData st') = unload_reason (tabData st) \<and>
     session_duration (tabData st') = session_duration (tabData st) \<and>
     session_id (tabData st') =
       (if truthy_str (session_id (tabData st)) then session_id (tabData st)
        else Some (uuid e (uuidReads st))) \<and>
     uuidReads st' =
       (if truthy_str (session_id (tabData st)) then uuidReads st else Suc (uuidReads st)) \<and>
     openTabs st' = (openTabs st)(t_id t \<mapsto> \<lparr>o_url = t_url t, o_active = True\<rparr>) \<and>
     trackableURLs st' = trackableURLs st"
  using assms
  by (auto simp: logActivate_def tracker_defs Let_def split: option.splits)

lemma logReady_refresh:
  assumes tracked: "isActivityStreamsURL st (t_url t)"
    and act: "activeTab e = Some a" "t_id a = t_id t"
    and url: "truthy_str (url (tabData st))"
    and dur: "\<not> truthy_num (session_duration (tabData st))"
    and row: "openTabs st (t_id t) = Some row"
  shows "\<exists>r st'. logReady e t st = Inr st' \<and> emits_exactly st st' r \<and>
     unload_reason r = Some (or_str (unload_reason (tabData st)) ''refresh'') \<and>
     load_reason (tabData st') = Some ''refresh'' \<and>
     start_time (tabData st') = Some (now e (nowReads st' - 1)) \<and>
     nowReads st < nowReads st' \<and>
     url (tabData st') = Some (t_url t) \<and> tab_id (tabData st') = Some (t_id t) \<and>
     session_id (tabData st') = Some (uuid e (uuidReads st' - 1)) \<and>
     uuidReads st < uuidReads st' \<and>
     unload_reason (tabData st') = None \<and> session_duration (tabData st') = None"
proof -
  obtain r st1 where nav: "navigateAwayFromPage e t ''refresh'' st = Inr st1"
    and em: "emits_exactly st st1 r"
    and ur: "unload_reason r = Some (or_str (unload_reason (tabData st)) ''refresh'')"
    and td1: "tabData st1 =
      empty_tab_data\<lparr>total_history_size := total_history_size (tabData st),
        total_bookmarks := total_bookmarks (tabData st)\<rparr>"
    and ot1: "openTabs st1 = openTabs st" and tu1: "trackableURLs st1 = trackableURLs st"
    and n1: "nowReads st \<le> nowReads st1" and u1: "uuidReads st \<le> uuidReads st1"
    using nav_any [OF row, of e "''refresh''"] by blast
  let ?st2 = "st1\<lparr>tabData := (tabData st1)\<lparr>load_reason := Some ''refresh''\<rparr>\<rparr>"
  have tr2: "isActivityStreamsURL ?st2 (t_url t)"
    using tracked tu1 by (simp add: isActivityStreamsURL_def)
  have row2: "openTabs ?st2 (t_id t) = Some row"
    using row ot1 by simp
  obtain st' where la: "logActivate e t ?st2 = Inr st'"
    and props: "notified st' = notified ?st2"
      "load_reason (tabData st') = Some (or_str (load_reason (tabData ?st2)) ''focus'')"
      "start_time (tabData st') = Some (now e (nowReads ?st2))"
      "nowReads st' = Suc (nowReads ?st2)"
      "url (tabData st') = Some (t_url t)" "tab_id (tabData st') = Some (t_id t)"
      "unload_reason (tabData st') = unload_reason (tabData ?st2)"
      "session_duration (tabData st') = session_duration (tabData ?st2)"
      "session_id (tabData st') =
         (if truthy_str (session_id (tabData ?st2)) then session_id (tabData ?st2)
          else Some (uuid e (uuidReads ?st2)))"
      "uuidReads st' =
         (if truthy_str (session_id (tabData ?st2)) then uuidReads ?st2
          else Suc (uuidReads ?st2))"
    using logActivate_tracked [OF tr2 row2, of e] by blast
  have lr: "logReady e t st = Inr st'"
    using tracked act url dur nav la by (simp add: logReady_def)
  have "emits_exactly st st' r"
    using em props(1) by (simp add: emits_exactly_def)
  moreover have "load_reason (tabData st') = Some ''refresh''"
    using props(2) by simp
  moreover have "start_time (tabData st') = Some (now e (nowReads st' - 1))"
    "nowReads st < nowReads st'"
    using props(3,4) n1 by simp_all
  moreover have "session_id (tabData st') = Some (uuid e (uuidReads st' - 1))"
    "uuidReads st < uuidReads st'"
    using props(9,10) td1 u1 by (simp_all add: empty_tab_data_def)
  moreover have "unload_reason (tabData st') = None" "session_duration (tabData st') = None"
    using props(7,8) td1 by (simp_all add: empty_tab_data_def)
  ultimately show ?thesis
    using lr ur props(5,6) by blast
qed

subsection \<open>The invariant of a run\<close>

text \<open>
  Every handler that returns keeps \<open>tracker_inv\<close>, provided the clock never goes back.
  The flush is the one place where a duration is computed: the start time is an earlier
  reading of the clock, so the difference is not negative.
\<close>

lemma nav_inv:
  assumes m: "mono clk" and n: "now e = clk" and g: "tracker_inv clk st"
    and nav: "navigateAwayFromPage e t reason st = Inr st'"
  shows "tracker_inv clk st'"
proof -
  from nav_row [OF nav] obtain row where row: "openTabs st (t_id t) = Some row" ..
  show ?thesis
  proof (cases "truthy_str (tab_id (tabData st))")
    case False
    from nav_no_tab_id [OF row False, of e reason] nav obtain r where
      em: "emits_exactly st st' r" and sd: "session_duration r = Some 0"
      and td: "tabData st' =
        empty_tab_data\<lparr>total_history_size := total_history_size (tabData st),
          total_bookmarks := total_bookmarks (tabData st)\<rparr>"
      by auto
    have "session_inv clk st'"
      using td by (simp add: session_inv_def empty_tab_data_def)
    moreover have "durations_ok st'"
      using g sd by (simp add: tracker_inv_def durations_ok_def completed_emits [OF em])
    ultimately show ?thesis by (simp add: tracker_inv_def)
  next
    case True
    from nav_tab_id [OF row True, of e reason] nav obtain r where
      em: "emits_exactly st st' r"
      and sd: "session_duration r =
       (case start_time (tabData st) of
          None \<Rightarrow> session_duration (tabData st)
        | Some t0 \<Rightarrow> if t0 \<noteq> 0 then Some (now e (nowReads st) - t0)
                     else session_duration (tabData st))"
      and td: "tabData st' =
        empty_tab_data\<lparr>total_history_size := total_history_size (tabData st),
          total_bookmarks := total_bookmarks (tabData st)\<rparr>"
      by auto
    have "session_inv clk st'"
      using td by (simp add: session_inv_def empty_tab_data_def)
    moreover have "case session_duration r of None \<Rightarrow> True | Some d \<Rightarrow> 0 \<le> d"
    proof (cases "start_time (tabData st)")
      case None
      then show ?thesis using sd g by (simp add: tracker_inv_def session_inv_def)
    next
      case (Some t0)
      with g obtain k where k: "k < nowReads st" "t0 = clk k"
        by (auto simp: tracker_inv_def session_inv_def)
      have "clk k \<le> clk (nowReads st)"
        using m k(1) by (simp add: monoD)
      then show ?thesis
        using sd Some k(2) n g by (simp add: tracker_inv_def session_inv_def)
    qed
    ultimately show ?thesis
      using g by (simp add: tracker_inv_def durations_ok_def completed_emits [OF em])
  qed
qed

lemma logActivate_inv:
  assumes n: "now e = clk" and g: "tracker_inv clk st" and la: "logActivate e t st = Inr st'"
  shows "tracker_inv clk st'"
  using assms
  by (cases "load_reason (tabData st)")
     (auto simp: logActivate_def tracker_inv_def session_inv_def durations_ok_def
        completed_def tracker_defs Let_def split: option.splits if_splits)

lemma set_load_reason_inv:
  "tracker_inv clk st \<Longrightarrow> lr \<noteq> [] \<Longrightarrow>
   tracker_inv clk (st\<lparr>tabData := (tabData st)\<lparr>load_reason := Some lr\<rparr>\<rparr>)"
  by (simp add: tracker_inv_def session_inv_def durations_ok_def completed_def
      split: option.splits)

lemma set_openTabs_inv: "tracker_inv clk st \<Longrightarrow> tracker_inv clk (st\<lparr>openTabs := m\<rparr>)"
  by (simp add: tracker_inv_def session_inv_def durations_ok_def completed_def
      split: option.splits)

lemma logReady_inv:
  assumes m: "mono clk" and n: "now e = clk" and g: "tracker_inv clk st"
    and lr: "logReady e t st = Inr st'"
  shows "tracker_inv clk st'"
  using lr g
  by (auto simp: logReady_def logReady_other_def split: if_splits option.splits sum.splits
      dest!: nav_inv [OF m n, rotated] logActivate_inv [OF n, rotated]
      intro: set_load_reason_inv)

lemma onOpen_inv: "tracker_inv clk st \<Longrightarrow> tracker_inv clk (onOpen e t st)"
  by (simp add: onOpen_def tracker_inv_def session_inv_def durations_ok_def completed_def
      next_uuid_def Let_def split: option.splits)

lemma handleUserEvent_inv:
  "tracker_inv clk st \<Longrightarrow> handleUserEvent e p st = Inr st' \<Longrightarrow> tracker_inv clk st'"
  by (auto simp: handleUserEvent_def tracker_inv_def session_inv_def durations_ok_def
      completed_def completed_of_append notifyObservers_def Let_def
      split: option.splits if_splits)

lemma handleUndesiredEvent_inv:
  "tracker_inv clk st \<Longrightarrow> handleUndesiredEvent e p st = Inr st' \<Longrightarrow> tracker_inv clk st'"
  by (auto simp: handleUndesiredEvent_def tracker_inv_def session_inv_def durations_ok_def
      completed_def completed_of_append notifyObservers_def Let_def
      split: option.splits if_splits)

lemma handlePerformanceEvent_inv:
  "tracker_inv clk st \<Longrightarrow> handlePerformanceEvent e d n v st = Inr st' \<Longrightarrow>
   tracker_inv clk st'"
  by (auto simp: handlePerformanceEvent_def tracker_inv_def session_inv_def durations_ok_def
      completed_def completed_of_append notifyObservers_def Let_def
      split: option.splits if_splits)

lemma observe_inv:
  assumes g: "tracker_inv clk st" and ob: "observe e ob st = Inr st'"
  shows "tracker_inv clk st'"
proof (cases ob)
  case (PerfLogComplete tabId starts)
  then show ?thesis
    using ob g
    by (auto simp: observe_def tracker_inv_def session_inv_def durations_ok_def
        completed_def split: if_splits list.splits option.splits)
next
  case (SlowAddonDetected d)
  then show ?thesis
    using ob g handleUndesiredEvent_inv [OF g]
    by (auto simp: observe_def split: if_splits)
qed

lemma logDeactivate_inv:
  assumes m: "mono clk" and n: "now e = clk" and g: "tracker_inv clk st"
    and ld: "logDeactivate e t st = Inr st'"
  shows "tracker_inv clk st'"
  using ld g
  by (auto simp: logDeactivate_def split: if_splits option.splits sum.splits
      dest!: nav_inv [OF m n, rotated] intro: set_openTabs_inv)

lemma logClose_inv:
  assumes m: "mono clk" and n: "now e = clk" and g: "tracker_inv clk st"
    and lc: "logClose e t st = Inr st'"
  shows "tracker_inv clk st'"
  using lc g
  by (auto simp: logClose_def split: if_splits option.splits sum.splits
      dest!: nav_inv [OF m n, rotated] intro: set_openTabs_inv)

lemma logPageShow_inv:
  assumes m: "mono clk" and n: "now e = clk" and g: "tracker_inv clk st"
    and lp: "logPageShow e t st = Inr st'"
  shows "tracker_inv clk st'"
  using lp g logReady_inv [OF m n g, of t st']
  by (auto simp: logPageShow_def split: if_splits)

lemma handleRouteChange_inv:
  assumes m: "mono clk" and n: "now e = clk" and g: "tracker_inv clk st"
    and h: "handleRouteChange e t f st = Inr st'"
  shows "tracker_inv clk st'"
proof (cases f)
  case True
  then show ?thesis using h g by (simp add: handleRouteChange_def)
next
  case False
  with h obtain st1 where 1: "navigateAwayFromPage e t ''route_change'' st = Inr st1"
    and 2: "logReady e t st1 = Inr st'"
    by (auto simp: handleRouteChange_def split: sum.splits)
  from logReady_inv [OF m n nav_inv [OF m n g 1] 2] show ?thesis .
qed

lemma dispatch_inv:
  assumes m: "mono clk" and n: "now e = clk" and g: "tracker_inv clk st"
    and d: "dispatch e c st = Inr st'"
  shows "tracker_inv clk st'"
proof (cases c)
  case (OnOpen t)
  then show ?thesis using d g onOpen_inv by auto
next
  case (LogReady t)
  then show ?thesis using d logReady_inv [OF m n g] by simp
next
  case (LogPageShow t)
  then show ?thesis using d logPageShow_inv [OF m n g] by simp
next
  case (LogActivate t)
  then show ?thesis using d logActivate_inv [OF n g] by simp
next
  case (LogDeactivate t)
  then show ?thesis using d logDeactivate_inv [OF m n g] by simp
next
  case (LogClose t)
  then show ?thesis using d logClose_inv [OF m n g] by simp
next
  case (HandleUserEvent p)
  then show ?thesis using d handleUserEvent_inv [OF g] by simp
next
  case (HandleUndesiredEvent p)
  then show ?thesis using d handleUndesiredEvent_inv [OF g] by simp
next
  case (HandlePerformanceEvent p s v)
  then show ?thesis using d handlePerformanceEvent_inv [OF g] by simp
next
  case (HandleRouteChange t f)
  then show ?thesis using d handleRouteChange_inv [OF m n g] by simp
next
  case (Observe ob)
  then show ?thesis using d observe_inv [OF g] by simp
qed

lemma run_inv:
  assumes m: "mono clk"
  shows "tracker_inv clk st \<Longrightarrow> run clk gen cs st = Inr st' \<Longrightarrow> tracker_inv clk st'"
proof (induction cs arbitrary: st)
  case Nil
  then show ?case by simp
next
  case (Cons ec cs)
  obtain e c where ec: "ec = (e, c)" by (cases ec)
  from Cons.prems(2) ec obtain st1 where
    1: "dispatch (e\<lparr>now := clk, uuid := gen\<rparr>) c st = Inr st1"
    and 2: "run clk gen cs st1 = Inr st'"
    by (auto simp: and_then_def split: sum.splits)
  have "tracker_inv clk st1"
    using dispatch_inv [OF m _ Cons.prems(1) 1] by simp
  from Cons.IH [OF this 2] show ?case .
qed

lemma TabTracker_inv: "tracker_inv clk (TabTracker cid urls expId)"
  by (simp add: tracker_inv_def session_inv_def durations_ok_def completed_def
      TabTracker_def empty_tab_data_def)

text \<open>
  In every run from the initial state under a clock that never goes back, no record has a
  negative duration, and the state a flush starts from holds no stale duration and a start
  time not later than the next reading of the clock.
\<close>

lemma run_durations_nonneg:
  assumes "mono clk" "run clk gen cs (TabTracker cid urls expId) = Inr st"
    "r \<in> set (completed st)" "session_duration r = Some d"
  shows "0 \<le> d"
  using run_inv [OF assms(1) TabTracker_inv assms(2)] assms(3,4)
  by (auto simp: tracker_inv_def durations_ok_def list_all_iff split: option.splits)

lemma run_flush_premises:
  assumes m: "mono clk" and r: "run clk gen cs (TabTracker cid urls expId) = Inr st"
  shows "session_duration (tabData st) = None \<and>
     (\<forall>t0. start_time (tabData st) = Some t0 \<longrightarrow> t0 \<le> clk (nowReads st)) \<and>
     (load_reason (tabData st) \<noteq> None \<longrightarrow> truthy_str (load_reason (tabData st)))"
proof -
  have inv: "session_inv clk st"
    using run_inv [OF m TabTracker_inv r] by (simp add: tracker_inv_def)
  have "t0 \<le> clk (nowReads st)" if "start_time (tabData st) = Some t0" for t0
  proof -
    from inv that obtain k where "k < nowReads st" "t0 = clk k"
      by (auto simp: session_inv_def)
    then show ?thesis using m by (simp add: monoD)
  qed
  moreover have "load_reason (tabData st) \<noteq> None \<longrightarrow> truthy_str (load_reason (tabData st))"
    using inv by (cases "load_reason (tabData st)") (auto simp: session_inv_def)
  ultimately show ?thesis using inv by (simp add: session_inv_def)
qed

subsection \<open>Facts of the example states\<close>

lemma ex_loaded_tracked: "isActivityStreamsURL ex_loaded (t_url ex_tab)"
  by (simp add: isActivityStreamsURL_def ex_defs)

lemma ex_env_active: "activeTab ex_env = Some ex_tab"
  by (simp add: ex_defs)

lemma ex_loaded_row:
  "openTabs ex_loaded (t_id ex_tab) = Some \<lparr>o_url = ''about:newtab'', o_active = True\<rparr>"
  by (simp add: ex_defs)

lemma ex_idle_row:
  "openTabs ex_idle (t_id ex_tab) = Some \<lparr>o_url = ''about:newtab'', o_active = False\<rparr>"
  by (simp add: ex_idle_def ex_defs)

lemma ex_idle_tracked: "isActivityStreamsURL ex_idle (t_url ex_tab)"
  by (simp add: isActivityStreamsURL_def ex_idle_def ex_defs)

lemma ex_loaded_session:
  "truthy_str (url (tabData ex_loaded))" "\<not> truthy_num (session_duration (tabData ex_loaded))"
  "session_duration (tabData ex_loaded) = None" "start_time (tabData ex_loaded) = Some 100"
  "truthy_str (tab_id (tabData ex_loaded))" "unload_reason (tabData ex_loaded) = None"
  "truthy_str (load_reason (tabData ex_loaded))"
  "session_id (tabData ex_loaded) = Some ''{uuid-0}''"
  by (simp_all add: ex_defs empty_tab_data_def)

lemma ex_idle_session:
  "\<not> truthy_str (tab_id (tabData ex_idle))" "\<not> truthy_str (load_reason (tabData ex_idle))"
  "start_time (tabData ex_idle) = None" "\<not> truthy_str (session_id (tabData ex_idle))"
  "unload_reason (tabData ex_idle) = None"
  by (simp_all add: ex_idle_def empty_tab_data_def)

subsection \<open>Refresh\<close>

text \<open>
  C1, as amended. \<open>logReady\<close> is called for the active tab, which shows a tracked URL and
  has its row in \<open>_openTabs\<close>, while a session is live (\<open>url\<close> is set) and holds no
  \<open>session_duration\<close>. Then exactly one notification is sent, a session-complete record,
  and a new session starts with \<open>load_reason = "refresh"\<close>, the latest reading of the clock
  as \<open>start_time\<close> and a newly drawn session id. The record's \<open>unload_reason\<close> is the
  reason a SEARCH or CLICK event left pending, and \<open>"refresh"\<close> when none is pending.
\<close>

theorem C1_refresh:
  assumes tracked: "isActivityStreamsURL st (t_url t)"
    and act: "activeTab e = Some a" "t_id a = t_id t"
    and url: "truthy_str (url (tabData st))"
    and dur: "\<not> truthy_num (session_duration (tabData st))"
    and row: "openTabs st (t_id t) = Some row"
  shows "\<exists>r st'. logReady e t st = Inr st' \<and> emits_exactly st st' r \<and>
     unload_reason r = Some (or_str (unload_reason (tabData st)) ''refresh'') \<and>
     load_reason (tabData st') = Some ''refresh'' \<and>
     start_time (tabData st') = Some (now e (nowReads st' - 1)) \<and>
     nowReads st < nowReads st' \<and>
     url (tabData st') = Some (t_url t) \<and> tab_id (tabData st') = Some (t_id t) \<and>
     session_id (tabData st') = Some (uuid e (uuidReads st' - 1)) \<and>
     uuidReads st < uuidReads st' \<and>
     unload_reason (tabData st') = None \<and> session_duration (tabData st') = None"
  using logReady_refresh [OF tracked act url dur row] .

text \<open>The refresh of the example session, which no user event preceded.\<close>

theorem C1_refresh_witness:
  "isActivityStreamsURL ex_loaded (t_url ex_tab) \<and> activeTab ex_env = Some ex_tab \<and>
   truthy_str (url (tabData ex_loaded)) \<and>
   \<not> truthy_num (session_duration (tabData ex_loaded)) \<and>
   openTabs ex_loaded (t_id ex_tab) = Some \<lparr>o_url = ''about:newtab'', o_active = True\<rparr> \<and>
   (\<exists>r st'. logReady ex_env ex_tab ex_loaded = Inr st' \<and> emits_exactly ex_loaded st' r \<and>
      unload_reason r = Some ''refresh'' \<and> load_reason (tabData st') = Some ''refresh'' \<and>
      url (tabData st') = Some ''about:newtab'' \<and> tab_id (tabData st') = Some ''-3-1'')"
proof -
  note h = ex_loaded_tracked ex_env_active ex_loaded_session(1,2) ex_loaded_row
  have u: "or_str (unload_reason (tabData ex_loaded)) ''refresh'' = ''refresh''"
    by (simp add: ex_loaded_session)
  have t: "t_url ex_tab = ''about:newtab''" "t_id ex_tab = ''-3-1''"
    by (simp_all add: ex_defs)
  from C1_refresh [OF h(1) h(2) refl h(3) h(4) h(5)]
  have "\<exists>r st'. logReady ex_env ex_tab ex_loaded = Inr st' \<and> emits_exactly ex_loaded st' r \<and>
      unload_reason r = Some ''refresh'' \<and> load_reason (tabData st') = Some ''refresh'' \<and>
      url (tabData st') = Some ''about:newtab'' \<and> tab_id (tabData st') = Some ''-3-1''"
    unfolding u t by blast
  with h show ?thesis by blast
qed

text \<open>
  The claim as written fails when a click precedes the refresh: the premises of the claim
  hold in \<open>ex_clicked\<close>, and the one record sent has \<open>unload_reason = "click"\<close>.
\<close>

theorem C1_counterexample:
  "truthy_str (url (tabData ex_clicked)) \<and> session_duration (tabData ex_clicked) = None \<and>
   isActivityStreamsURL ex_clicked (t_url ex_tab) \<and> activeTab ex_env = Some ex_tab \<and>
   map_sum id (map unload_reason \<circ> completed) (logReady ex_env ex_tab ex_clicked) =
     Inr [Some ''click'']"
  by (simp add: logReady_def logActivate_def navigateAwayFromPage_def isActivityStreamsURL_def
      highlights_count_def completed_def COMPLETE_NOTIF_def
      ex_clicked_def ex_defs tracker_defs Let_def)

subsection \<open>User events and the unload reason\<close>

text \<open>
  C2. \<open>handleUserEvent\<close> receives a payload whose event is SEARCH or CLICK while some tab
  is active. Then it returns with the session's \<open>unload_reason\<close> set to the event name in
  lower case, \<open>"search"\<close> or \<open>"click"\<close>; and the flush of a tab of the table that
  follows, whatever its reason and its environment, sends a record whose \<open>unload_reason\<close>
  is that name, not the reason passed to the flush. The same holds of a flush from any
  later state that still holds that \<open>unload_reason\<close>.
\<close>

theorem C2_user_event_reason:
  assumes ev: "event p = Some ev" "ev = ''SEARCH'' \<or> ev = ''CLICK''"
    and act: "activeTab e = Some a"
    and row: "openTabs st (t_id t) = Some row"
  shows "\<exists>st1 r st2. handleUserEvent e p st = Inr st1 \<and>
     unload_reason (tabData st1) = Some (toLowerCase ev) \<and>
     toLowerCase ev \<in> {''search'', ''click''} \<and>
     navigateAwayFromPage e' t reason st1 = Inr st2 \<and> emits_exactly st1 st2 r \<and>
     unload_reason r = Some (toLowerCase ev) \<and>
     (\<forall>s row'. unload_reason (tabData s) = unload_reason (tabData st1) \<and>
        openTabs s (t_id t) = Some row' \<longrightarrow>
        (\<exists>r' s'. navigateAwayFromPage e' t reason s = Inr s' \<and> emits_exactly s s' r' \<and>
           unload_reason r' = Some (toLowerCase ev)))"
proof -
  let ?p3 = "setCommonProperties e st
      (p\<lparr>action := Some ''activity_stream_event'', tab_id := Some (t_id a)\<rparr>) (t_url a)"
  let ?st0 = "notifyObservers ACTION_NOTIF (EventJSON ?p3) st"
  let ?st1 = "?st0\<lparr>tabData := (tabData ?st0)\<lparr>unload_reason := Some (toLowerCase ev)\<rparr>\<rparr>"
  have evp: "event ?p3 = Some ev"
    using ev(1) by (simp add: setCommonProperties_def Let_def)
  have h: "handleUserEvent e p st = Inr ?st1"
    using ev(2) act evp by (simp add: handleUserEvent_def Let_def)
  have low: "toLowerCase ev \<in> {''search'', ''click''}" "toLowerCase ev \<noteq> []"
    using ev(2) by (auto simp: toLowerCase_SEARCH toLowerCase_CLICK)
  have row1: "openTabs ?st1 (t_id t) = Some row"
    using row by (simp add: notifyObservers_def)
  obtain r st2 where nav: "navigateAwayFromPage e' t reason ?st1 = Inr st2"
    and em: "emits_exactly ?st1 st2 r"
    and ur: "unload_reason r = Some (or_str (unload_reason (tabData ?st1)) reason)"
    using nav_any [OF row1, of e' reason] by blast
  have res: "unload_reason r = Some (toLowerCase ev)"
    using ur low(2) by simp
  have later: "\<exists>r' s'. navigateAwayFromPage e' t reason s = Inr s' \<and> emits_exactly s s' r' \<and>
      unload_reason r' = Some (toLowerCase ev)"
    if u: "unload_reason (tabData s) = unload_reason (tabData ?st1)"
      and rw: "openTabs s (t_id t) = Some row'" for s row'
  proof -
    obtain r' s' where "navigateAwayFromPage e' t reason s = Inr s'" "emits_exactly s s' r'"
      and ur': "unload_reason r' = Some (or_str (unload_reason (tabData s)) reason)"
      using nav_any [OF rw, of e' reason] by blast
    moreover have "unload_reason r' = Some (toLowerCase ev)"
      using ur' u low(2) by simp
    ultimately show ?thesis by blast
  qed
  have st1: "unload_reason (tabData ?st1) = Some (toLowerCase ev)"
    by simp
  have all: "\<forall>s row'. unload_reason (tabData s) = unload_reason (tabData ?st1) \<and>
        openTabs s (t_id t) = Some row' \<longrightarrow>
        (\<exists>r' s'. navigateAwayFromPage e' t reason s = Inr s' \<and> emits_exactly s s' r' \<and>
           unload_reason r' = Some (toLowerCase ev))"
    using later by blast
  show ?thesis
    by (rule exI [of _ ?st1], rule exI [of _ r], rule exI [of _ st2])
       (intro conjI h st1 low(1) nav em res all)
qed

text \<open>The click of the example, followed by a navigation away while the other tab is active.\<close>

theorem C2_user_event_reason_witness:
  "event ex_click = Some ''CLICK'' \<and> activeTab ex_env = Some ex_tab \<and>
   openTabs ex_loaded (t_id ex_tab) = Some \<lparr>o_url = ''about:newtab'', o_active = True\<rparr> \<and>
   (\<exists>st1 r st2. handleUserEvent ex_env ex_click ex_loaded = Inr st1 \<and>
      unload_reason (tabData st1) = Some ''click'' \<and>
      navigateAwayFromPage (ex_env\<lparr>activeTab := Some ex_other\<rparr>) ex_tab ''navigation'' st1 =
        Inr st2 \<and>
      emits_exactly st1 st2 r \<and> unload_reason r = Some ''click'')"
proof -
  have h1: "event ex_click = Some ''CLICK''"
    by (simp add: ex_click_def)
  have h2: "''CLICK'' = ''SEARCH'' \<or> ''CLICK'' = ''CLICK''"
    by simp
  from C2_user_event_reason [OF h1 h2 ex_env_active ex_loaded_row,
      of "ex_env\<lparr>activeTab := Some ex_other\<rparr>" "''navigation''"]
  have "\<exists>st1 r st2. handleUserEvent ex_env ex_click ex_loaded = Inr st1 \<and>
      unload_reason (tabData st1) = Some ''click'' \<and>
      navigateAwayFromPage (ex_env\<lparr>activeTab := Some ex_other\<rparr>) ex_tab ''navigation'' st1 =
        Inr st2 \<and>
      emits_exactly st1 st2 r \<and> unload_reason r = Some ''click''"
    unfolding toLowerCase_CLICK by (elim exE conjE) (intro exI conjI)
  with h1 ex_env_active ex_loaded_row show ?thesis by (intro conjI)
qed

subsection \<open>The duration of a session\<close>

text \<open>
  C3, as amended. A flush of a tab of the table starts in a state that holds no
  \<open>session_duration\<close> and whose \<open>start_time\<close>, when there is one, is not later than the
  reading of the clock the flush makes (both hold between the calls of a run whose clock
  never goes back). Then one record is sent. When no \<open>tab_id\<close> was recorded its
  \<open>session_duration\<close> is there and is 0, whether a \<open>start_time\<close> was set or not. When a
  \<open>tab_id\<close> was recorded, the \<open>session_duration\<close> is there exactly when \<open>start_time\<close>
  held a timestamp other than 0, and is the reading of the clock minus that timestamp. A
  \<open>session_duration\<close> that is there is never negative.
\<close>

theorem C3_session_duration:
  assumes row: "openTabs st (t_id t) = Some row"
    and fresh: "session_duration (tabData st) = None"
    and clock: "\<forall>t0. start_time (tabData st) = Some t0 \<longrightarrow> t0 \<le> now e (nowReads st)"
  shows "\<exists>r st'. navigateAwayFromPage e t reason st = Inr st' \<and> emits_exactly st st' r \<and>
      (session_duration r \<noteq> None \<longleftrightarrow>
         truthy_num (start_time (tabData st)) \<or> \<not> truthy_str (tab_id (tabData st))) \<and>
      (\<not> truthy_str (tab_id (tabData st)) \<longrightarrow> session_duration r = Some 0) \<and>
      (truthy_str (tab_id (tabData st)) \<longrightarrow>
         (\<forall>t0. start_time (tabData st) = Some t0 \<and> t0 \<noteq> 0 \<longrightarrow>
            session_duration r = Some (now e (nowReads st) - t0))) \<and>
      (\<forall>d. session_duration r = Some d \<longrightarrow> 0 \<le> d)"
proof (cases "truthy_str (tab_id (tabData st))")
  case True
  from nav_tab_id [OF row True, of e reason] obtain r st' where
    nav: "navigateAwayFromPage e t reason st = Inr st'" and em: "emits_exactly st st' r"
    and sd: "session_duration r =
       (case start_time (tabData st) of
          None \<Rightarrow> session_duration (tabData st)
        | Some t0 \<Rightarrow> if t0 \<noteq> 0 then Some (now e (nowReads st) - t0)
                     else session_duration (tabData st))"
    by blast
  have "(session_duration r \<noteq> None) = truthy_num (start_time (tabData st))"
    using sd fresh by (cases "start_time (tabData st)") auto
  moreover have "\<forall>d. session_duration r = Some d \<longrightarrow> 0 \<le> d"
    using sd fresh clock by (cases "start_time (tabData st)") (auto split: if_splits)
  moreover have "\<forall>t0. start_time (tabData st) = Some t0 \<and> t0 \<noteq> 0 \<longrightarrow>
            session_duration r = Some (now e (nowReads st) - t0)"
    using sd by auto
  ultimately show ?thesis using nav em True by blast
next
  case False
  from nav_no_tab_id [OF row False, of e reason] obtain r st' where
    nav: "navigateAwayFromPage e t reason st = Inr st'" and em: "emits_exactly st st' r"
    and sd: "session_duration r = Some 0"
    by blast
  then show ?thesis using False by auto
qed

text \<open>The example session, started at 100, is flushed when the clock reads 110.\<close>

theorem C3_session_duration_witness:
  "openTabs ex_loaded (t_id ex_tab) = Some \<lparr>o_url = ''about:newtab'', o_active = True\<rparr> \<and>
   session_duration (tabData ex_loaded) = None \<and>
   start_time (tabData ex_loaded) = Some 100 \<and> 100 \<le> now ex_env (nowReads ex_loaded) \<and>
   truthy_str (tab_id (tabData ex_loaded)) \<and>
   (\<exists>r st'. navigateAwayFromPage ex_env ex_tab ''unfocus'' ex_loaded = Inr st' \<and>
      emits_exactly ex_loaded st' r \<and> session_duration r = Some 10)"
proof -
  have rd: "now ex_env (nowReads ex_loaded) = 110"
    by (simp add: ex_defs)
  have clock: "\<forall>t0. start_time (tabData ex_loaded) = Some t0 \<longrightarrow>
      t0 \<le> now ex_env (nowReads ex_loaded)"
    by (simp add: rd ex_loaded_session)
  from C3_session_duration [OF ex_loaded_row ex_loaded_session(3) clock, of "''unfocus''"]
  obtain r st' where nav: "navigateAwayFromPage ex_env ex_tab ''unfocus'' ex_loaded = Inr st'"
    and em: "emits_exactly ex_loaded st' r"
    and sd: "truthy_str (tab_id (tabData ex_loaded)) \<longrightarrow>
         (\<forall>t0. start_time (tabData ex_loaded) = Some t0 \<and> t0 \<noteq> 0 \<longrightarrow>
            session_duration r = Some (now ex_env (nowReads ex_loaded) - t0))"
    by (elim exE conjE) (rule that)
  have "session_duration r = Some 10"
    using sd by (simp add: rd ex_loaded_session)
  with nav em have "\<exists>r st'. navigateAwayFromPage ex_env ex_tab ''unfocus'' ex_loaded = Inr st' \<and>
      emits_exactly ex_loaded st' r \<and> session_duration r = Some 10"
    by blast
  moreover have "(100::real) \<le> now ex_env (nowReads ex_loaded)"
    by (simp add: rd)
  ultimately show ?thesis
    using ex_loaded_row ex_loaded_session(3,4,5) by blast
qed

text \<open>
  The claim as written fails in the state \<open>ex_idle\<close>, where the session was flushed when
  its tab lost the focus: no \<open>start_time\<close> is set, and the record of a further flush
  (a route change) has \<open>session_duration = 0\<close>.
\<close>

theorem C3_counterexample:
  "start_time (tabData ex_idle) = None \<and>
   map_sum id (map session_duration \<circ> completed)
     (navigateAwayFromPage ex_env ex_tab ''route_change'' ex_idle) = Inr [Some 0]"
  by (simp add: navigateAwayFromPage_def highlights_count_def completed_def COMPLETE_NOTIF_def
      ex_idle_def ex_defs tracker_defs Let_def)

subsection \<open>Closing a tab\<close>

text \<open>
  C4, as amended. \<open>logClose\<close> is called for a tab. If its URL is tracked and its row is
  marked active, exactly one notification is sent, a session-complete record whose
  \<open>unload_reason\<close> is the reason a SEARCH or CLICK event left pending and \<open>"close"\<close> when
  none is pending, and the row is removed. If its URL is tracked and its row is marked
  inactive, nothing is sent and the session state is unchanged. If its URL is not tracked,
  nothing is sent, the session state is unchanged and the row is removed.
\<close>

theorem C4_logClose:
  "(isActivityStreamsURL st (t_url t) \<and> openTabs st (t_id t) = Some row \<and> o_active row \<longrightarrow>
      (\<exists>r st'. logClose e t st = Inr st' \<and> emits_exactly st st' r \<and>
         unload_reason r = Some (or_str (unload_reason (tabData st)) ''close'') \<and>
         openTabs st' (t_id t) = None)) \<and>
   (isActivityStreamsURL st (t_url t) \<and> openTabs st (t_id t) = Some row \<and> \<not> o_active row \<longrightarrow>
      (\<exists>st'. logClose e t st = Inr st' \<and> notified st' = notified st \<and>
         tabData st' = tabData st)) \<and>
   (\<not> isActivityStreamsURL st (t_url t) \<longrightarrow>
      (\<exists>st'. logClose e t st = Inr st' \<and> notified st' = notified st \<and>
         tabData st' = tabData st \<and> openTabs st' (t_id t) = None))"
proof -
  have a: "\<exists>r st'. logClose e t st = Inr st' \<and> emits_exactly st st' r \<and>
         unload_reason r = Some (or_str (unload_reason (tabData st)) ''close'') \<and>
         openTabs st' (t_id t) = None"
    if tr: "isActivityStreamsURL st (t_url t)" and row: "openTabs st (t_id t) = Some row"
      and ac: "o_active row"
  proof -
    obtain r st1 where nav: "navigateAwayFromPage e t ''close'' st = Inr st1"
      and em: "emits_exactly st st1 r"
      and ur: "unload_reason r = Some (or_str (unload_reason (tabData st)) ''close'')"
      using nav_any [OF row, of e "''close''"] by blast
    let ?st' = "st1\<lparr>openTabs := (openTabs st1)(t_id t := None)\<rparr>"
    have "logClose e t st = Inr ?st'"
      using tr row ac nav by (simp add: logClose_def)
    moreover have "emits_exactly st ?st' r"
      using em by (simp add: emits_exactly_def)
    ultimately show ?thesis using ur by auto
  qed
  have b: "\<exists>st'. logClose e t st = Inr st' \<and> notified st' = notified st \<and>
         tabData st' = tabData st"
    if "isActivityStreamsURL st (t_url t)" "openTabs st (t_id t) = Some row" "\<not> o_active row"
    using that by (simp add: logClose_def)
  have c: "\<exists>st'. logClose e t st = Inr st' \<and> notified st' = notified st \<and>
         tabData st' = tabData st \<and> openTabs st' (t_id t) = None"
    if "\<not> isActivityStreamsURL st (t_url t)"
    using that by (simp add: logClose_def)
  show ?thesis using a b c by blast
qed

text \<open>
  The tab of the example is closed while its session is live, and after it lost the focus;
  the other tab, whose page is not tracked, is closed.
\<close>

theorem C4_logClose_witness:
  "(isActivityStreamsURL ex_loaded (t_url ex_tab) \<and>
    openTabs ex_loaded (t_id ex_tab) = Some \<lparr>o_url = ''about:newtab'', o_active = True\<rparr> \<and>
    (\<exists>r st'. logClose ex_env ex_tab ex_loaded = Inr st' \<and> emits_exactly ex_loaded st' r \<and>
       unload_reason r = Some ''close'' \<and> openTabs st' (t_id ex_tab) = None)) \<and>
   (isActivityStreamsURL ex_idle (t_url ex_tab) \<and>
    openTabs ex_idle (t_id ex_tab) = Some \<lparr>o_url = ''about:newtab'', o_active = False\<rparr> \<and>
    (\<exists>st'. logClose ex_env ex_tab ex_idle = Inr st' \<and> notified st' = notified ex_idle \<and>
       tabData st' = tabData ex_idle)) \<and>
   (\<not> isActivityStreamsURL ex_loaded (t_url ex_other) \<and>
    (\<exists>st'. logClose ex_env ex_other ex_loaded = Inr st' \<and> notified st' = notified ex_loaded \<and>
       tabData st' = tabData ex_loaded \<and> openTabs st' (t_id ex_other) = None))"
proof -
  have u: "or_str (unload_reason (tabData ex_loaded)) ''close'' = ''close''"
    by (simp add: ex_loaded_session)
  have ac: "o_active \<lparr>o_url = ''about:newtab'', o_active = True\<rparr>"
    "\<not> o_active \<lparr>o_url = ''about:newtab'', o_active = False\<rparr>"
    by simp_all
  have nt: "\<not> isActivityStreamsURL ex_loaded (t_url ex_other)"
    by (simp add: isActivityStreamsURL_def ex_other_def ex_defs)
  have 1: "\<exists>r st'. logClose ex_env ex_tab ex_loaded = Inr st' \<and> emits_exactly ex_loaded st' r \<and>
       unload_reason r = Some ''close'' \<and> openTabs st' (t_id ex_tab) = None"
    using C4_logClose [of ex_loaded ex_tab "\<lparr>o_url = ''about:newtab'', o_active = True\<rparr>" ex_env,
        THEN conjunct1, THEN mp, OF conjI [OF ex_loaded_tracked conjI [OF ex_loaded_row ac(1)]]]
    unfolding u .
  have 2: "\<exists>st'. logClose ex_env ex_tab ex_idle = Inr st' \<and> notified st' = notified ex_idle \<and>
       tabData st' = tabData ex_idle"
    using C4_logClose [of ex_idle ex_tab "\<lparr>o_url = ''about:newtab'', o_active = False\<rparr>" ex_env,
        THEN conjunct2, THEN conjunct1, THEN mp,
        OF conjI [OF ex_idle_tracked conjI [OF ex_idle_row ac(2)]]] .
  have 3: "\<exists>st'. logClose ex_env ex_other ex_loaded = Inr st' \<and>
       notified st' = notified ex_loaded \<and>
       tabData st' = tabData ex_loaded \<and> openTabs st' (t_id ex_other) = None"
    using C4_logClose [of ex_loaded ex_other _ ex_env,
        THEN conjunct2, THEN conjunct2, THEN mp, OF nt] .
  show ?thesis
    using 1 2 3 ex_loaded_tracked ex_loaded_row ex_idle_tracked ex_idle_row nt
    by (intro conjI)
qed

text \<open>
  The claim as written fails when a click precedes the closing: the row of the tab is
  active in \<open>ex_clicked\<close>, and the one record sent has \<open>unload_reason = "click"\<close>.
\<close>

theorem C4_counterexample:
  "isActivityStreamsURL ex_clicked (t_url ex_tab) \<and>
   map_option o_active (openTabs ex_clicked (t_id ex_tab)) = Some True \<and>
   map_sum id (map unload_reason \<circ> completed) (logClose ex_env ex_tab ex_clicked) =
     Inr [Some ''click'']"
  by (simp add: logClose_def navigateAwayFromPage_def isActivityStreamsURL_def
      highlights_count_def completed_def COMPLETE_NOTIF_def
      ex_clicked_def ex_defs tracker_defs Let_def)

text \<open>
  When the URL is tracked and the row is marked inactive, \<open>logClose\<close> returns before it
  reaches the statement that removes the row: the row stays in the table.
\<close>

lemma logClose_inactive_keeps_row:
  assumes "isActivityStreamsURL st (t_url t)" "openTabs st (t_id t) = Some row"
    "\<not> o_active row"
  shows "logClose e t st = Inr st"
  using assms by (simp add: logClose_def)

subsection \<open>A page that never loaded\<close>

text \<open>
  C5. A flush of a tab of the table starts in a state where no \<open>tab_id\<close> is recorded.
  Then one record is sent, with \<open>session_duration = 0\<close> and with the \<open>load_reason\<close> of
  the state, or \<open>"none"\<close> when the state has none; and the session state is reset: only
  \<open>total_history_size\<close> and \<open>total_bookmarks\<close> are kept.
\<close>

theorem C5_never_loaded:
  assumes row: "openTabs st (t_id t) = Some row"
    and notab: "\<not> truthy_str (tab_id (tabData st))"
  shows "\<exists>r st'. navigateAwayFromPage e t reason st = Inr st' \<and> emits_exactly st st' r \<and>
     session_duration r = Some 0 \<and>
     load_reason r = Some (or_str (load_reason (tabData st)) ''none'') \<and>
     (\<not> truthy_str (load_reason (tabData st)) \<longrightarrow> load_reason r = Some ''none'') \<and>
     tabData st' = empty_tab_data\<lparr>total_history_size := total_history_size (tabData st),
           total_bookmarks := total_bookmarks (tabData st)\<rparr>"
proof -
  have "\<not> truthy_str (load_reason (tabData st)) \<longrightarrow>
      or_str (load_reason (tabData st)) ''none'' = ''none''"
    by (cases "load_reason (tabData st)") auto
  with nav_no_tab_id [OF row notab, of e reason] show ?thesis by fastforce
qed

text \<open>A route change in the tab of the example, after its session was flushed.\<close>

theorem C5_never_loaded_witness:
  "openTabs ex_idle (t_id ex_tab) = Some \<lparr>o_url = ''about:newtab'', o_active = False\<rparr> \<and>
   \<not> truthy_str (tab_id (tabData ex_idle)) \<and>
   \<not> truthy_str (load_reason (tabData ex_idle)) \<and>
   (\<exists>r st'. navigateAwayFromPage ex_env ex_tab ''route_change'' ex_idle = Inr st' \<and>
      emits_exactly ex_idle st' r \<and> session_duration r = Some 0 \<and>
      load_reason r = Some ''none'' \<and>
      tabData st' =
        empty_tab_data\<lparr>total_history_size := Some 40, total_bookmarks := Some 5\<rparr>)"
proof -
  have u: "or_str (load_reason (tabData ex_idle)) ''none'' = ''none''"
    "total_history_size (tabData ex_idle) = Some 40" "total_bookmarks (tabData ex_idle) = Some 5"
    by (simp_all add: ex_idle_def empty_tab_data_def)
  from C5_never_loaded [OF ex_idle_row ex_idle_session(1), of ex_env "''route_change''"]
  obtain r st' where
    "navigateAwayFromPage ex_env ex_tab ''route_change'' ex_idle = Inr st'"
    "emits_exactly ex_idle st' r" "session_duration r = Some 0"
    "load_reason r = Some (or_str (load_reason (tabData ex_idle)) ''none'')"
    "tabData st' = empty_tab_data\<lparr>total_history_size := total_history_size (tabData ex_idle),
           total_bookmarks := total_bookmarks (tabData ex_idle)\<rparr>"
    by (elim exE conjE) (rule that)
  then have "\<exists>r st'. navigateAwayFromPage ex_env ex_tab ''route_change'' ex_idle = Inr st' \<and>
      emits_exactly ex_idle st' r \<and> session_duration r = Some 0 \<and>
      load_reason r = Some ''none'' \<and>
      tabData st' =
        empty_tab_data\<lparr>total_history_size := Some 40, total_bookmarks := Some 5\<rparr>"
    unfolding u by (intro exI conjI)
  then show ?thesis
    using ex_idle_row ex_idle_session(1,2) by (intro conjI)
qed

subsection \<open>Deactivation while the window closes\<close>

text \<open>
  C6. \<open>logDeactivate\<close> is called while no tab is active. Then it returns the state it
  received: nothing is sent, and the session state and the tab table are unchanged.
\<close>

theorem C6_window_closing:
  assumes "activeTab e = None"
  shows "logDeactivate e t st = Inr st"
  using assms by (simp add: logDeactivate_def)

theorem C6_window_closing_witness:
  "activeTab (ex_env\<lparr>activeTab := None\<rparr>) = None \<and>
   logDeactivate (ex_env\<lparr>activeTab := None\<rparr>) ex_tab ex_loaded = Inr ex_loaded"
proof -
  have h: "activeTab (ex_env\<lparr>activeTab := None\<rparr>) = None"
    by simp
  from h C6_window_closing [OF h, of ex_tab ex_loaded] show ?thesis
    by (rule conjI)
qed

subsection \<open>The session id\<close>

text \<open>
  C7, as amended. The tracker holds one session state, with one \<open>start_time\<close> field. A
  session start (\<open>_initTabSession\<close>) keeps the session id the state holds, as the one set
  when the tab opened, and draws a new UUID only when the state holds none. Every flush
  that returns sends the record with the id the state held, and leaves the state without
  session id and without \<open>start_time\<close>. So the id is not kept across a refresh: the
  session that \<open>logReady\<close> starts after the flush has a newly drawn UUID.
\<close>

theorem C7_session_id:
  "(truthy_str (session_id (tabData st)) \<longrightarrow>
      session_id (tabData (initTabSession e t lr st)) = session_id (tabData st)) \<and>
   (\<not> truthy_str (session_id (tabData st)) \<longrightarrow>
      session_id (tabData (initTabSession e t lr st)) = Some (uuid e (uuidReads st))) \<and>
   (navigateAwayFromPage e t reason st = Inr st1 \<longrightarrow>
      session_id (tabData st1) = None \<and> start_time (tabData st1) = None \<and>
      (\<exists>r. emits_exactly st st1 r \<and>
         (truthy_str (session_id (tabData st)) \<longrightarrow> session_id r = session_id (tabData st)))) \<and>
   (isActivityStreamsURL st (t_url t) \<and> activeTab e = Some a \<and> t_id a = t_id t \<and>
    truthy_str (url (tabData st)) \<and> \<not> truthy_num (session_duration (tabData st)) \<and>
    openTabs st (t_id t) = Some row \<longrightarrow>
      (\<exists>st2. logReady e t st = Inr st2 \<and>
         session_id (tabData st2) = Some (uuid e (uuidReads st2 - 1)) \<and>
         uuidReads st < uuidReads st2))"
proof -
  have 1: "truthy_str (session_id (tabData st)) \<longrightarrow>
      session_id (tabData (initTabSession e t lr st)) = session_id (tabData st)"
    by (cases "session_id (tabData st)") (auto simp: tracker_defs Let_def)
  have 2: "\<not> truthy_str (session_id (tabData st)) \<longrightarrow>
      session_id (tabData (initTabSession e t lr st)) = Some (uuid e (uuidReads st))"
    by (cases "session_id (tabData st)") (auto simp: tracker_defs Let_def)
  have 3: "navigateAwayFromPage e t reason st = Inr st1 \<longrightarrow>
      session_id (tabData st1) = None \<and> start_time (tabData st1) = None \<and>
      (\<exists>r. emits_exactly st st1 r \<and>
         (truthy_str (session_id (tabData st)) \<longrightarrow> session_id r = session_id (tabData st)))"
  proof
    assume n: "navigateAwayFromPage e t reason st = Inr st1"
    from nav_session_id [OF n] obtain r where
      c: "session_id (tabData st1) = None" "start_time (tabData st1) = None"
      and em: "emits_exactly st st1 r"
      and sid: "session_id r =
        (if truthy_str (session_id (tabData st)) then session_id (tabData st)
         else if truthy_str (tab_id (tabData st)) then session_id (tabData st)
         else Some (uuid e (uuidReads st)))"
      by blast
    have "truthy_str (session_id (tabData st)) \<longrightarrow> session_id r = session_id (tabData st)"
      using sid by simp
    with c em show "session_id (tabData st1) = None \<and> start_time (tabData st1) = None \<and>
      (\<exists>r. emits_exactly st st1 r \<and>
         (truthy_str (session_id (tabData st)) \<longrightarrow> session_id r = session_id (tabData st)))"
      by blast
  qed
  have 4: "\<exists>st2. logReady e t st = Inr st2 \<and>
         session_id (tabData st2) = Some (uuid e (uuidReads st2 - 1)) \<and>
         uuidReads st < uuidReads st2"
    if "isActivityStreamsURL st (t_url t)" "activeTab e = Some a" "t_id a = t_id t"
       "truthy_str (url (tabData st))" "\<not> truthy_num (session_duration (tabData st))"
       "openTabs st (t_id t) = Some row"
    using logReady_refresh [OF that] by blast
  show ?thesis using 1 2 3 4 by blast
qed

text \<open>
  In the example: a session start in \<open>ex_loaded\<close> keeps the id drawn when the tab opened,
  a session start in \<open>ex_idle\<close> draws the next one; the flush of \<open>ex_loaded\<close> clears the
  id, and its refresh draws a UUID.
\<close>

theorem C7_session_id_witness:
  "truthy_str (session_id (tabData ex_loaded)) \<and>
   session_id (tabData (initTabSession ex_env ex_tab ''focus'' ex_loaded)) = Some ''{uuid-0}'' \<and>
   \<not> truthy_str (session_id (tabData ex_idle)) \<and>
   session_id (tabData (initTabSession ex_env ex_tab ''focus'' ex_idle)) = Some ''{uuid-1}'' \<and>
   (\<exists>st1. navigateAwayFromPage ex_env ex_tab ''unfocus'' ex_loaded = Inr st1 \<and>
      session_id (tabData st1) = None \<and> start_time (tabData st1) = None \<and>
      (\<exists>r. emits_exactly ex_loaded st1 r \<and> session_id r = Some ''{uuid-0}'')) \<and>
   isActivityStreamsURL ex_loaded (t_url ex_tab) \<and> activeTab ex_env = Some ex_tab \<and>
   truthy_str (url (tabData ex_loaded)) \<and>
   \<not> truthy_num (session_duration (tabData ex_loaded)) \<and>
   openTabs ex_loaded (t_id ex_tab) = Some \<lparr>o_url = ''about:newtab'', o_active = True\<rparr> \<and>
   (\<exists>st2. logReady ex_env ex_tab ex_loaded = Inr st2 \<and>
      session_id (tabData st2) = Some (uuid ex_env (uuidReads st2 - 1)) \<and>
      uuidReads ex_loaded < uuidReads st2)"
proof -
  have sid: "truthy_str (session_id (tabData ex_loaded))"
    by (simp add: ex_loaded_session)
  have g: "uuid ex_env (uuidReads ex_idle) = ''{uuid-1}''"
    by (simp add: ex_idle_def ex_defs)
  have 1: "session_id (tabData (initTabSession ex_env ex_tab ''focus'' ex_loaded)) =
      Some ''{uuid-0}''"
    using C7_session_id [of ex_loaded ex_env ex_tab "''focus''", THEN conjunct1, THEN mp, OF sid]
    by (simp add: ex_loaded_session)
  have 2: "session_id (tabData (initTabSession ex_env ex_tab ''focus'' ex_idle)) =
      Some ''{uuid-1}''"
    using C7_session_id [of ex_idle ex_env ex_tab "''focus''",
        THEN conjunct2, THEN conjunct1, THEN mp, OF ex_idle_session(4)]
    by (simp add: g)
  obtain r0 st1 where nav: "navigateAwayFromPage ex_env ex_tab ''unfocus'' ex_loaded = Inr st1"
    and em0: "emits_exactly ex_loaded st1 r0"
    using nav_any [OF ex_loaded_row, of ex_env "''unfocus''"] by (elim exE conjE) (rule that)
  from C7_session_id [of ex_loaded ex_env ex_tab _ "''unfocus''" st1,
      THEN conjunct2, THEN conjunct2, THEN conjunct1, THEN mp, OF nav]
  obtain r where c: "session_id (tabData st1) = None" "start_time (tabData st1) = None"
    and em: "emits_exactly ex_loaded st1 r"
    and s: "truthy_str (session_id (tabData ex_loaded)) \<longrightarrow>
      session_id r = session_id (tabData ex_loaded)"
    by (elim exE conjE) (rule that)
  have "session_id r = Some ''{uuid-0}''"
    using s sid by (simp add: ex_loaded_session)
  with nav c em have 3: "\<exists>st1. navigateAwayFromPage ex_env ex_tab ''unfocus'' ex_loaded = Inr st1 \<and>
      session_id (tabData st1) = None \<and> start_time (tabData st1) = None \<and>
      (\<exists>r. emits_exactly ex_loaded st1 r \<and> session_id r = Some ''{uuid-0}'')"
    by (intro exI conjI)
  have 4: "\<exists>st2. logReady ex_env ex_tab ex_loaded = Inr st2 \<and>
      session_id (tabData st2) = Some (uuid ex_env (uuidReads st2 - 1)) \<and>
      uuidReads ex_loaded < uuidReads st2"
    using C7_session_id [of ex_loaded ex_env ex_tab _ _ _ ex_tab
        "\<lparr>o_url = ''about:newtab'', o_active = True\<rparr>",
        THEN conjunct2, THEN conjunct2, THEN conjunct2, THEN mp,
        OF conjI [OF ex_loaded_tracked conjI [OF ex_env_active conjI [OF refl
          conjI [OF ex_loaded_session(1) conjI [OF ex_loaded_session(2) ex_loaded_row]]]]]] .
  show ?thesis
    using sid 1 ex_idle_session(4) 2 3 ex_loaded_tracked ex_env_active ex_loaded_session(1,2)
      ex_loaded_row 4
    by (intro conjI)
qed

text \<open>
  The claim as written fails at the refresh of the example session: the state holds the
  id drawn when the tab opened, and after \<open>logReady\<close> it holds the next id drawn.
\<close>

theorem C7_counterexample:
  "session_id (tabData ex_loaded) = Some ''{uuid-0}'' \<and>
   map_sum id (session_id \<circ> tabData) (logReady ex_env ex_tab ex_loaded) =
     Inr (Some ''{uuid-1}'')"
  by (simp add: logReady_def logActivate_def navigateAwayFromPage_def isActivityStreamsURL_def
      highlights_count_def ex_defs tracker_defs Let_def)

subsection \<open>Events while no tab is active\<close>

text \<open>
  C8 states that no handler throws while no tab is active: a performance event is dropped,
  and \<open>handleUserEvent\<close> and \<open>handleUndesiredEvent\<close> return as well. The first part holds
  (\<open>handlePerformanceEvent\<close> starts with a guard, see the lemma below). The second does
  not hold of the code, evaluated here in any environment without an active tab: both
  handlers throw a TypeError on reading \<open>tabs.activeTab.id\<close>, and so does \<open>observe\<close> when
  the add-on itself is reported as slow.
\<close>

theorem C8_user_event_raises:
  "handleUserEvent (e\<lparr>activeTab := None\<rparr>) p st = Inl TypeError \<and>
   handleUndesiredEvent (e\<lparr>activeTab := None\<rparr>) p st = Inl TypeError \<and>
   observe (e\<lparr>activeTab := None\<rparr>) (SlowAddonDetected (self_id e)) st = Inl TypeError"
  by (simp add: handleUserEvent_def handleUndesiredEvent_def observe_def)

text \<open>A performance event that arrives while no tab is active is dropped.\<close>

lemma handlePerformanceEvent_no_active_tab:
  "handlePerformanceEvent (e\<lparr>activeTab := None\<rparr>) d n v st = Inr st"
  by (simp add: handlePerformanceEvent_def)

subsection \<open>Opening a tab\<close>

text \<open>
  C9. \<open>onOpen\<close> never throws and sends nothing. Whatever the state, it leaves the id of the
  opened tab in \<open>tab_id\<close> and the next UUID drawn in \<open>session_id\<close>, and the row of the tab,
  marked active, in the table; the \<open>url\<close>, \<open>load_reason\<close>, \<open>start_time\<close>,
  \<open>unload_reason\<close> and \<open>session_duration\<close> of a session in flight stay as they were, now
  under the new tab's id.
\<close>

theorem C9_onOpen:
  "tab_id (tabData (onOpen e t st)) = Some (t_id t) \<and>
   session_id (tabData (onOpen e t st)) = Some (uuid e (uuidReads st)) \<and>
   notified (onOpen e t st) = notified st \<and>
   url (tabData (onOpen e t st)) = url (tabData st) \<and>
   load_reason (tabData (onOpen e t st)) = load_reason (tabData st) \<and>
   start_time (tabData (onOpen e t st)) = start_time (tabData st) \<and>
   unload_reason (tabData (onOpen e t st)) = unload_reason (tabData st) \<and>
   session_duration (tabData (onOpen e t st)) = session_duration (tabData st) \<and>
   openTabs (onOpen e t st) (t_id t) = Some \<lparr>o_url = t_url t, o_active = True\<rparr>"
  by (simp add: onOpen_def next_uuid_def Let_def split: option.splits)

subsection \<open>Page show\<close>

text \<open>
  C10. \<open>logPageShow\<close> returns the state it received, and so sends nothing, when the
  session's \<open>load_reason\<close> is set or the URL of the tab is not tracked. The first is the
  case in every state that \<open>logReady\<close> returns for the active tab with a tracked URL: the
  page show that follows a ready changes nothing.
\<close>

theorem C10_pageshow:
  "(truthy_str (load_reason (tabData st)) \<or> \<not> isActivityStreamsURL st (t_url t) \<longrightarrow>
      logPageShow e t st = Inr st) \<and>
   (isActivityStreamsURL st (t_url t) \<and> activeTab e = Some a \<and> t_id a = t_id t \<and>
    logReady e t st = Inr st' \<longrightarrow> logPageShow e' t st' = Inr st')"
proof -
  have 1: "truthy_str (load_reason (tabData st)) \<or> \<not> isActivityStreamsURL st (t_url t) \<longrightarrow>
      logPageShow e t st = Inr st"
    by (auto simp: logPageShow_def)
  have la: "truthy_str (load_reason (tabData s'))"
    if "logActivate e t s = Inr s'" "isActivityStreamsURL s (t_url t)" for s s'
    using that
    by (cases "load_reason (tabData s)")
       (auto simp: logActivate_def tracker_defs Let_def split: option.splits if_splits)
  have nv: "trackableURLs s' = trackableURLs s"
    if "navigateAwayFromPage e t rs s = Inr s'" for s s' rs
    using that
    by (auto simp: navigateAwayFromPage_def tracker_defs Let_def split: option.splits if_splits)
  have 2: "truthy_str (load_reason (tabData st'))"
    if "isActivityStreamsURL st (t_url t)" "activeTab e = Some a" "t_id a = t_id t"
       "logReady e t st = Inr st'"
    using that
    by (auto simp: logReady_def isActivityStreamsURL_def split: if_splits sum.splits
        dest!: nv intro!: la [unfolded isActivityStreamsURL_def])
  show ?thesis using 1 2 by (auto simp: logPageShow_def)
qed

text \<open>
  In the example: the page show that follows the ready of the opened tab, and a page show
  of the other tab, whose page is not tracked, while no \<open>load_reason\<close> is set.
\<close>

theorem C10_pageshow_witness:
  "truthy_str (load_reason (tabData ex_loaded)) \<and>
   logPageShow ex_env ex_tab ex_loaded = Inr ex_loaded \<and>
   \<not> isActivityStreamsURL ex_idle (t_url ex_other) \<and>
   logPageShow ex_env ex_other ex_idle = Inr ex_idle \<and>
   isActivityStreamsURL (onOpen ex_env ex_tab ex_init) (t_url ex_tab) \<and>
   activeTab ex_env = Some ex_tab \<and>
   logReady ex_env ex_tab (onOpen ex_env ex_tab ex_init) = Inr ex_loaded \<and>
   logPageShow (ex_env\<lparr>activeTab := Some ex_other\<rparr>) ex_tab ex_loaded = Inr ex_loaded"
proof -
  have nt: "\<not> isActivityStreamsURL ex_idle (t_url ex_other)"
    by (simp add: isActivityStreamsURL_def ex_other_def ex_idle_def)
  have tr: "isActivityStreamsURL (onOpen ex_env ex_tab ex_init) (t_url ex_tab)"
    by (simp add: isActivityStreamsURL_def onOpen_def next_uuid_def ex_defs Let_def)
  have 1: "logPageShow ex_env ex_tab ex_loaded = Inr ex_loaded"
    using C10_pageshow [of ex_loaded ex_tab ex_env, THEN conjunct1, THEN mp,
        OF disjI1 [OF ex_loaded_session(7)]] .
  have 2: "logPageShow ex_env ex_other ex_idle = Inr ex_idle"
    using C10_pageshow [of ex_idle ex_other ex_env, THEN conjunct1, THEN mp, OF disjI2 [OF nt]] .
  have 3: "logPageShow (ex_env\<lparr>activeTab := Some ex_other\<rparr>) ex_tab ex_loaded = Inr ex_loaded"
    using C10_pageshow [of "onOpen ex_env ex_tab ex_init" ex_tab ex_env ex_tab ex_loaded
        "ex_env\<lparr>activeTab := Some ex_other\<rparr>", THEN conjunct2, THEN mp,
        OF conjI [OF tr conjI [OF ex_env_active conjI [OF refl ex_loaded_reachable]]]] .
  show ?thesis
    using ex_loaded_session(7) 1 nt 2 tr ex_env_active ex_loaded_reachable 3
    by (intro conjI)
qed

end
